theory Spec2Isabelle
  imports Main
begin

section \<open>Data model of the configuration provider\<close>

text \<open>
  Values of Go's \<open>interface{}\<close> that the provider stores and returns. \<open>GNil\<close> is the nil
  interface, \<open>GInt\<close> a Go \<open>int\<close>, \<open>GFloat64 n\<close> the \<open>float64\<close> whose value is the integer
  \<open>n\<close> (the JSON reader returns every number as a \<open>float64\<close>), \<open>GObject\<close> the map read
  from a JSON object.
\<close>

datatype json = JNull | JBool bool | JNum int | JStr string | JObj "(string \<times> json) list"

datatype goval = GNil | GBool bool | GInt int | GFloat64 int | GString string
  | GObject "(string \<times> json) list"

text \<open>
  A JSON text: \<open>Blank\<close> is the empty text, \<open>Doc j\<close> the text of the document \<open>j\<close>.
  The provider's buffer \<open>cfg\<close> is a byte slice: \<open>None\<close> is the nil slice.
\<close>

datatype jsontext = Blank | Doc json

text \<open>The errors of the package, with the data their messages are formatted from.\<close>

datatype error =
    NotAnInt goval
  | NotGreaterThan int int
  | NotAString goval
  | NotInAllowedValues string "string list"
  | DuplicateKey string
  | InvalidKey string "string list"
  | NoValueFound string
  | ValueNotAnInt goval string
  | ValueNotAString goval string
  | PathEmpty
  | WildcardInPath
  | WriteFailed string

record FieldDefinition =
  EnvVar :: string
  Key :: string
  Default :: goval
  CaseSensitive :: bool
  Sensitive :: bool
  ValidationFunc :: "(string \<Rightarrow> goval \<Rightarrow> error option) option"

record ConfigProvider =
  cfg :: "jsontext option"
  fields' :: "FieldDefinition list"
  fileName :: string
  scope :: string
  mu :: bool
  dirty :: bool
  explicitValues :: bool
  settingDefaults :: bool

text \<open>
  The process environment and the file system the provider reads and writes. A file holds
  a JSON text; \<open>writable\<close> says whether \<open>os.WriteFile\<close> succeeds on a path.
\<close>

record world =
  env :: "string \<Rightarrow> string option"
  files :: "string \<Rightarrow> jsontext option"
  writable :: "string \<Rightarrow> bool"

text \<open>
  What a call of a method does to the process: it blocks for ever on the provider's
  mutex, it ends the process (\<open>log.Fatalf\<close>), or it returns a value and leaves the
  provider and the world in a new state.
\<close>

datatype 'a outcome = Deadlock | Fatal | Return 'a ConfigProvider world

section \<open>Strings\<close>

text \<open>\<open>strings.EqualFold\<close> on ASCII text: equality up to the case of the letters A to Z.\<close>

definition toLowerASCII :: "char \<Rightarrow> char" where
  "toLowerASCII c =
     (case map_of (zip ''ABCDEFGHIJKLMNOPQRSTUVWXYZ'' ''abcdefghijklmnopqrstuvwxyz'') c of
        None \<Rightarrow> c
      | Some l \<Rightarrow> l)"

definition EqualFold :: "string \<Rightarrow> string \<Rightarrow> bool" where
  "EqualFold s t = (map toLowerASCII s = map toLowerASCII t)"

text \<open>\<open>os.LookupEnv\<close>: the empty name is never set.\<close>

definition LookupEnv :: "world \<Rightarrow> string \<Rightarrow> string option" where
  "LookupEnv w name = (if name = [] then None else env w name)"

section \<open>Validation functions\<close>


fun inAllowed :: "bool \<Rightarrow> string \<Rightarrow> string list \<Rightarrow> bool" where
  "inAllowed caseSensitive s [] = False"
| "inAllowed caseSensitive s (v # vs) =
     (if caseSensitive \<and> s = v then True
      else if \<not> caseSensitive \<and> EqualFold s v then True
      else inAllowed caseSensitive s vs)"

definition StringInStrings :: "bool \<Rightarrow> string list \<Rightarrow> string \<Rightarrow> goval \<Rightarrow> error option" where
  "StringInStrings caseSensitive allowedValues key val =
     (case val of
        GString s \<Rightarrow>
          if inAllowed caseSensitive s allowedValues then None
          else Some (NotInAllowedValues s allowedValues)
      | _ \<Rightarrow> Some (NotAString val))"

section \<open>Field registry\<close>

definition getConfigValueKeys :: "ConfigProvider \<Rightarrow> string list" where
  "getConfigValueKeys p = map Key (fields' p)"

fun findField :: "string \<Rightarrow> FieldDefinition list \<Rightarrow> FieldDefinition option" where
  "findField key [] = None"
| "findField key (v # vs) =
     (if \<not> CaseSensitive v \<and> EqualFold key (Key v) then Some v
      else if CaseSensitive v \<and> key = Key v then Some v
      else findField key vs)"

definition getFieldDefinition :: "ConfigProvider \<Rightarrow> string \<Rightarrow> FieldDefinition option" where
  "getFieldDefinition p key = findField key (fields' p)"

text \<open>The loop of \<open>WithFieldDefinitions\<close> over the definitions it is given.\<close>

fun addDefinitions :: "ConfigProvider \<Rightarrow> FieldDefinition list \<Rightarrow> error + ConfigProvider" where
  "addDefinitions p [] = Inr p"
| "addDefinitions p (d # ds) =
     (if \<not> CaseSensitive d \<and> list_ex (\<lambda>k. EqualFold k (Key d)) (getConfigValueKeys p)
      then Inl (DuplicateKey (Key d))
      else addDefinitions (p\<lparr>fields' := fields' p @ [d]\<rparr>) ds)"

datatype ConfigProviderOption =
    WithExplicitValues
  | WithFieldDefinitions "FieldDefinition list"
  | WithFilePersistence string
  | WithScope string

fun applyOption :: "ConfigProviderOption \<Rightarrow> ConfigProvider \<Rightarrow> error + ConfigProvider" where
  "applyOption WithExplicitValues p = Inr (p\<lparr>explicitValues := True\<rparr>)"
| "applyOption (WithFieldDefinitions definitions) p = addDefinitions p definitions"
| "applyOption (WithFilePersistence f) p = Inr (p\<lparr>fileName := f\<rparr>)"
| "applyOption (WithScope s) p = Inr (p\<lparr>scope := s\<rparr>)"

definition emptyProvider :: ConfigProvider where
  "emptyProvider =
     \<lparr>cfg = None, fields' = [], fileName = [], scope = [], mu = False, dirty = False,
      explicitValues = False, settingDefaults = False\<rparr>"

text \<open>The options are applied in order; a nil option (\<open>None\<close>) is skipped.\<close>

fun applyOptions :: "ConfigProvider \<Rightarrow> ConfigProviderOption option list \<Rightarrow> error + ConfigProvider" where
  "applyOptions p [] = Inr p"
| "applyOptions p (None # opts) = applyOptions p opts"
| "applyOptions p (Some fn # opts) =
     (case applyOption fn p of Inl err \<Rightarrow> Inl err | Inr p' \<Rightarrow> applyOptions p' opts)"

definition NewConfigProvider :: "ConfigProviderOption option list \<Rightarrow> error + ConfigProvider" where
  "NewConfigProvider opts = applyOptions emptyProvider opts"

section \<open>The JSON library\<close>

text \<open>
  The provider keeps its document as JSON text and reads and writes it through the
  path functions of the libraries gjson and sjson. Their behaviour is modelled on
  documents that are trees of objects with scalar leaves, and on this part of the path
  syntax: a path is a sequence of components separated by \<open>.\<close>; a backslash makes the
  next character an ordinary one; in a read, an unescaped \<open>*\<close> matches any run of
  characters of a member name and an unescaped \<open>?\<close> any one character, and the first
  member (in document order) that matches and resolves the rest of the path is the
  result; a write refuses a path with an unescaped \<open>*\<close> or \<open>?\<close> and refuses the empty
  path, replaces the value of the first member named by a component, or appends the
  member when the object has none.
\<close>

datatype tok = Lit char | Star | Quest

fun splitPath :: "tok list \<Rightarrow> string \<Rightarrow> tok list list" where
  "splitPath acc [] = [rev acc]"
| "splitPath acc (c # cs) =
     (if c = CHR 0x5C then
        (case cs of [] \<Rightarrow> [rev acc] | d # ds \<Rightarrow> splitPath (Lit d # acc) ds)
      else if c = CHR ''.'' then rev acc # splitPath [] cs
      else if c = CHR ''*'' then splitPath (Star # acc) cs
      else if c = CHR ''?'' then splitPath (Quest # acc) cs
      else splitPath (Lit c # acc) cs)"

fun wmatch :: "tok list \<Rightarrow> string \<Rightarrow> bool" where
  "wmatch [] s = (s = [])"
| "wmatch (Lit c # ps) s = (case s of [] \<Rightarrow> False | d # ds \<Rightarrow> c = d \<and> wmatch ps ds)"
| "wmatch (Quest # ps) s = (case s of [] \<Rightarrow> False | d # ds \<Rightarrow> wmatch ps ds)"
| "wmatch (Star # ps) s =
     (wmatch ps s \<or> (case s of [] \<Rightarrow> False | d # ds \<Rightarrow> wmatch (Star # ps) ds))"

fun getIn :: "json \<Rightarrow> tok list list \<Rightarrow> json option"
  and getMember :: "(string \<times> json) list \<Rightarrow> tok list \<Rightarrow> tok list list \<Rightarrow> json option" where
  "getIn (JObj ms) (c # cs) = getMember ms c cs"
| "getIn j cs = None"
| "getMember [] c cs = None"
| "getMember ((k, v) # ms) c cs =
     (if wmatch c k then
        (if cs = [] then Some v
         else (case getIn v cs of Some r \<Rightarrow> Some r | None \<Rightarrow> getMember ms c cs))
      else getMember ms c cs)"

definition gjsonGet :: "jsontext \<Rightarrow> string \<Rightarrow> json option" where
  "gjsonGet js path = (case js of Blank \<Rightarrow> None | Doc j \<Rightarrow> getIn j (splitPath [] path))"

text \<open>
  \<open>Result.Value\<close> of gjson: a JSON number is returned as a \<open>float64\<close>, a string as a
  string, an object as a map. \<open>encode\<close> is the JSON value that \<open>sjson.Set\<close> writes for
  a Go value.
\<close>

fun Value :: "json \<Rightarrow> goval" where
  "Value JNull = GNil"
| "Value (JBool b) = GBool b"
| "Value (JNum n) = GFloat64 n"
| "Value (JStr s) = GString s"
| "Value (JObj ms) = GObject ms"

fun encode :: "goval \<Rightarrow> json" where
  "encode GNil = JNull"
| "encode (GBool b) = JBool b"
| "encode (GInt n) = JNum n"
| "encode (GFloat64 n) = JNum n"
| "encode (GString s) = JStr s"
| "encode (GObject ms) = JObj ms"

text \<open>
  The components of a path of a write, when none has an unescaped wildcard character.
\<close>

fun literal :: "tok list \<Rightarrow> string option" where
  "literal [] = Some []"
| "literal (Lit c # ts) = map_option ((#) c) (literal ts)"
| "literal (t # ts) = None"

fun literals :: "tok list list \<Rightarrow> string list option" where
  "literals [] = Some []"
| "literals (c # cs) =
     (case literal c of None \<Rightarrow> None
      | Some k \<Rightarrow> map_option ((#) k) (literals cs))"

definition parsePath :: "string \<Rightarrow> error + string list" where
  "parsePath path =
     (if path = [] then Inl PathEmpty
      else case literals (splitPath [] path) of None \<Rightarrow> Inl WildcardInPath | Some ks \<Rightarrow> Inr ks)"

fun build :: "string list \<Rightarrow> json \<Rightarrow> json" where
  "build [] v = v"
| "build (k # ks) v = JObj [(k, build ks v)]"

fun setIn :: "json \<Rightarrow> string list \<Rightarrow> json \<Rightarrow> json"
  and setMember :: "(string \<times> json) list \<Rightarrow> string \<Rightarrow> string list \<Rightarrow> json \<Rightarrow> (string \<times> json) list" where
  "setIn j [] v = v"
| "setIn (JObj ms) (k # ks) v = JObj (setMember ms k ks v)"
| "setIn j (k # ks) v = build (k # ks) v"
| "setMember [] k ks v = [(k, build ks v)]"
| "setMember ((k', x) # ms) k ks v =
     (if k' = k then (k', setIn x ks v) # ms else (k', x) # setMember ms k ks v)"

definition sjsonSet :: "jsontext \<Rightarrow> string \<Rightarrow> goval \<Rightarrow> error + jsontext" where
  "sjsonSet js path val =
     (case parsePath path of
        Inl err \<Rightarrow> Inl err
      | Inr ks \<Rightarrow> Inr (Doc (setIn (case js of Blank \<Rightarrow> JNull | Doc j \<Rightarrow> j) ks (encode val))))"

fun delIn :: "json \<Rightarrow> string list \<Rightarrow> json"
  and delMember :: "(string \<times> json) list \<Rightarrow> string \<Rightarrow> string list \<Rightarrow> (string \<times> json) list" where
  "delIn (JObj ms) (k # ks) = JObj (delMember ms k ks)"
| "delIn j ks = j"
| "delMember [] k ks = []"
| "delMember ((k', x) # ms) k ks =
     (if k' = k then (if ks = [] then ms else (k', delIn x ks) # ms)
      else (k', x) # delMember ms k ks)"

definition sjsonDelete :: "jsontext \<Rightarrow> string \<Rightarrow> error + jsontext" where
  "sjsonDelete js path =
     (case parsePath path of
        Inl err \<Rightarrow> Inl err
      | Inr ks \<Rightarrow> Inr (case js of Blank \<Rightarrow> Blank | Doc j \<Rightarrow> Doc (delIn j ks)))"

section \<open>The provider\<close>

text \<open>
  \<open>escapeWildcards\<close> puts a backslash before every \<open>*\<close> and \<open>?\<close>.
  \<open>setConfigFromFile\<close> leaves the buffer as it is when the file cannot be read.
  \<open>writeConfig\<close> marks the buffer dirty and replaces it before it writes the file.
\<close>

definition escapeWildcards :: "string \<Rightarrow> string" where
  "escapeWildcards key =
     concat (map (\<lambda>c. if c = CHR ''*'' \<or> c = CHR ''?'' then [CHR 0x5C, c] else [c]) key)"

definition setConfigFromFile :: "world \<Rightarrow> ConfigProvider \<Rightarrow> ConfigProvider" where
  "setConfigFromFile w p =
     (case files w (fileName p) of None \<Rightarrow> p | Some data \<Rightarrow> p\<lparr>cfg := Some data\<rparr>)"

definition writeConfig :: "world \<Rightarrow> ConfigProvider \<Rightarrow> jsontext \<Rightarrow> error option \<times> ConfigProvider \<times> world" where
  "writeConfig w p js =
     (let p' = p\<lparr>dirty := True, cfg := Some js\<rparr> in
      if fileName p' \<noteq> [] then
        (if writable w (fileName p')
         then (None, p', w\<lparr>files := (files w)(fileName p' := Some js)\<rparr>)
         else (Some (WriteFailed (fileName p')), p', w))
      else (None, p', w))"

text \<open>The buffer as a string: \<open>string(p.cfg)\<close>.\<close>

definition text_of :: "ConfigProvider \<Rightarrow> jsontext" where
  "text_of p = (case cfg p of None \<Rightarrow> Blank | Some js \<Rightarrow> js)"

text \<open>
  The path that \<open>GetWithScope\<close> and \<open>SetWithScope\<close> build from the call-site scope and
  the key: the fixed scope of the provider is applied last.
\<close>

definition resolvePath :: "ConfigProvider \<Rightarrow> string \<Rightarrow> string \<Rightarrow> string" where
  "resolvePath p scope' key =
     (let path = key;
          path = (if scope' \<noteq> [] then scope' @ ''.'' @ key else path);
          path = (if scope p \<noteq> [] then scope p @ ''.'' @ key else path)
      in path)"

text \<open>
  The part of \<open>SetWithScope\<close> before the mutex is taken: the validation function of the
  key's field definition, the refusal of an unknown key in explicit-values mode, the case
  convention of a case-insensitive definition, and the path.
\<close>

definition setTarget :: "ConfigProvider \<Rightarrow> string \<Rightarrow> string \<Rightarrow> goval \<Rightarrow> error + string" where
  "setTarget p scope' key val =
     (case getFieldDefinition p key of
        Some v \<Rightarrow>
          (case (case ValidationFunc v of None \<Rightarrow> None | Some f \<Rightarrow> f key val) of
             Some err \<Rightarrow> Inl err
           | None \<Rightarrow> Inr (resolvePath p scope' (if \<not> CaseSensitive v then Key v else key)))
      | None \<Rightarrow>
          if explicitValues p then Inl (InvalidKey key (getConfigValueKeys p))
          else Inr (resolvePath p scope' key))"

text \<open>
  \<open>getConfig\<close>, \<open>setDefaultConfig\<close> and \<open>SetWithScope\<close> call each other. The field
  \<open>mu\<close> says that the mutex is held: \<open>Lock\<close> on a held mutex never returns, and the
  deferred \<open>Unlock\<close> releases it on every return after the lock. \<open>setDefaultConfig\<close> is
  the loop over the field definitions; an error of \<open>Set\<close> there ends the process.
\<close>

function getConfig :: "world \<Rightarrow> ConfigProvider \<Rightarrow> jsontext outcome"
  and setDefaultConfig :: "world \<Rightarrow> ConfigProvider \<Rightarrow> FieldDefinition list \<Rightarrow> unit outcome"
  and SetWithScope :: "world \<Rightarrow> ConfigProvider \<Rightarrow> string \<Rightarrow> string \<Rightarrow> goval \<Rightarrow> error option outcome" where
  "getConfig w p =
     (if \<not> settingDefaults p \<and> (cfg p = None \<or> dirty p) then
        (let p1 = (if fileName p \<noteq> [] then setConfigFromFile w p else p) in
         if cfg p1 = None \<or> cfg p1 = Some Blank then
           (case setDefaultConfig w (p1\<lparr>settingDefaults := True\<rparr>) (fields' p1) of
              Deadlock \<Rightarrow> Deadlock
            | Fatal \<Rightarrow> Fatal
            | Return u p2 w2 \<Rightarrow>
                (let p3 = p2\<lparr>settingDefaults := False, dirty := False\<rparr>
                 in Return (text_of p3) p3 w2))
         else (let p3 = p1\<lparr>dirty := False\<rparr> in Return (text_of p3) p3 w))
      else Return (text_of p) p w)"
| "setDefaultConfig w p [] = Return () p w"
| "setDefaultConfig w p (v # vs) =
     (if Default v \<noteq> GNil then
        (case SetWithScope w p [] (Key v) (Default v) of
           Deadlock \<Rightarrow> Deadlock
         | Fatal \<Rightarrow> Fatal
         | Return err p' w' \<Rightarrow> if err \<noteq> None then Fatal else setDefaultConfig w' p' vs)
      else setDefaultConfig w p vs)"
| "SetWithScope w p scope' key val =
     (case setTarget p scope' key val of
        Inl err \<Rightarrow> Return (Some err) p w
      | Inr path \<Rightarrow>
          if mu p then Deadlock
          else
            (case getConfig w (p\<lparr>mu := True\<rparr>) of
               Deadlock \<Rightarrow> Deadlock
             | Fatal \<Rightarrow> Fatal
             | Return js p1 w1 \<Rightarrow>
                 (case sjsonSet js (escapeWildcards path) val of
                    Inl err \<Rightarrow> Return (Some err) (p1\<lparr>mu := False\<rparr>) w1
                  | Inr js' \<Rightarrow>
                      (case writeConfig w1 p1 js' of
                         (err, p2, w2) \<Rightarrow> Return err (p2\<lparr>mu := False\<rparr>) w2))))"
  by pat_completeness auto

text \<open>
  Termination: a call under \<open>settingDefaults\<close> loads nothing, and the calls keep the flag
  as it is.
\<close>

lemma setConfigFromFile_flag [simp]:
  "settingDefaults (setConfigFromFile w p) = settingDefaults p"
  by (simp add: setConfigFromFile_def split: option.splits)

lemma writeConfig_flag:
  "writeConfig w p js = (err, p', w') \<Longrightarrow> settingDefaults p' = settingDefaults p"
  by (auto simp: writeConfig_def Let_def split: if_splits)

lemma flag_kept_dom:
  "getConfig_setDefaultConfig_SetWithScope_dom (Inl (w, p)) \<Longrightarrow>
     (\<forall>js p' w'. getConfig w p = Return js p' w' \<longrightarrow> settingDefaults p' = settingDefaults p)"
  "getConfig_setDefaultConfig_SetWithScope_dom (Inr (Inl (w, p, fs))) \<Longrightarrow>
     (\<forall>u p' w'. setDefaultConfig w p fs = Return u p' w' \<longrightarrow> settingDefaults p' = settingDefaults p)"
  "getConfig_setDefaultConfig_SetWithScope_dom (Inr (Inr (w, p, sc, key, val))) \<Longrightarrow>
     (\<forall>e p' w'. SetWithScope w p sc key val = Return e p' w' \<longrightarrow> settingDefaults p' = settingDefaults p)"
proof (induction w p and w p fs and w p sc key val
    rule: getConfig_setDefaultConfig_SetWithScope.pinduct)
  case (1 w p)
  show ?case
    apply (subst getConfig.psimps[OF 1(1)])
    apply (simp add: Let_def split: if_splits outcome.splits)
    done
next
  case (2 w p)
  then show ?case by (simp add: setDefaultConfig.psimps)
next
  case (3 w p v vs)
  show ?case
  proof (intro allI impI)
    fix u p' w'
    assume r: "setDefaultConfig w p (v # vs) = Return u p' w'"
    show "settingDefaults p' = settingDefaults p"
    proof (cases "Default v \<noteq> GNil")
      case True
      with r obtain e p1 w1 where s: "SetWithScope w p [] (Key v) (Default v) = Return e p1 w1"
        and e: "e = None" and l: "setDefaultConfig w1 p1 vs = Return u p' w'"
        by (auto simp: setDefaultConfig.psimps(2)[OF 3(1)] split: outcome.splits if_splits)
      from 3(2)[OF True] s have "settingDefaults p1 = settingDefaults p" by blast
      moreover from 3(3)[OF True s] e l have "settingDefaults p' = settingDefaults p1" by blast
      ultimately show ?thesis by simp
    next
      case False
      with r have "setDefaultConfig w p vs = Return u p' w'"
        by (simp add: setDefaultConfig.psimps(2)[OF 3(1)])
      with 3(4)[OF False] show ?thesis by blast
    qed
  qed
next
  case (4 w p sc key val)
  show ?case
  proof (intro allI impI)
    fix e p' w'
    assume r: "SetWithScope w p sc key val = Return e p' w'"
    show "settingDefaults p' = settingDefaults p"
    proof (cases "setTarget p sc key val")
      case (Inl err)
      with r show ?thesis by (simp add: SetWithScope.psimps[OF 4(1)])
    next
      case (Inr path)
      with r have m: "\<not> mu p" by (auto simp: SetWithScope.psimps[OF 4(1)] split: if_splits)
      from r Inr m obtain js p1 w1 where g: "getConfig w (p\<lparr>mu := True\<rparr>) = Return js p1 w1"
        by (auto simp: SetWithScope.psimps[OF 4(1)] split: outcome.splits)
      from 4(2)[OF Inr m] g have f1: "settingDefaults p1 = settingDefaults p" by auto
      show ?thesis
      proof (cases "sjsonSet js (escapeWildcards path) val")
        case (Inl err)
        with r Inr m g f1 show ?thesis by (auto simp: SetWithScope.psimps[OF 4(1)])
      next
        case (Inr js')
        obtain err p2 w2 where wc: "writeConfig w1 p1 js' = (err, p2, w2)"
          by (cases "writeConfig w1 p1 js'") auto
        with r \<open>setTarget p sc key val = Inr path\<close> m g Inr
        have "p' = p2\<lparr>mu := False\<rparr>" by (auto simp: SetWithScope.psimps[OF 4(1)])
        with writeConfig_flag[OF wc] f1 show ?thesis by simp
      qed
    qed
  qed
qed

termination getConfig
proof (relation "measures
    [\<lambda>x. case x of
       Inl (w, p) \<Rightarrow> (if settingDefaults p then 0 else 1::nat)
     | Inr (Inl (w, p, fs)) \<Rightarrow> (if settingDefaults p then 0 else 1)
     | Inr (Inr (w, p, sc, key, val)) \<Rightarrow> (if settingDefaults p then 0 else 1),
     \<lambda>x. case x of Inl a \<Rightarrow> 0::nat | Inr (Inl b) \<Rightarrow> 2 | Inr (Inr c) \<Rightarrow> 1,
     \<lambda>x. case x of Inl a \<Rightarrow> 0::nat | Inr (Inl (w, p, fs)) \<Rightarrow> length fs | Inr (Inr c) \<Rightarrow> 0]", goal_cases)
  case 1
  then show ?case by simp
next
  case (2 w p x)
  then show ?case by simp
next
  case (3 w p v vs)
  then show ?case by simp
next
  case (4 w p v vs x31 x32 x33)
  then show ?case using flag_kept_dom(3)[OF 4(4)] by auto
next
  case (5 w p v vs)
  then show ?case by simp
next
  case (6 w p sc key val b)
  then show ?case by simp
qed

declare getConfig.simps [simp del]

declare SetWithScope.simps [simp del]

definition Set :: "world \<Rightarrow> ConfigProvider \<Rightarrow> string \<Rightarrow> goval \<Rightarrow> error option outcome" where
  "Set w p key val = SetWithScope w p [] key val"

definition getFromConfig :: "world \<Rightarrow> ConfigProvider \<Rightarrow> string \<Rightarrow> (error + json) outcome" where
  "getFromConfig w p path =
     (case getConfig w p of
        Deadlock \<Rightarrow> Deadlock
      | Fatal \<Rightarrow> Fatal
      | Return js p' w' \<Rightarrow>
          (case gjsonGet js path of
             None \<Rightarrow> Return (Inl (NoValueFound path)) p' w'
           | Some res \<Rightarrow> Return (Inr res) p' w'))"

definition GetWithScope :: "world \<Rightarrow> ConfigProvider \<Rightarrow> string \<Rightarrow> string \<Rightarrow> (error + goval) outcome" where
  "GetWithScope w p scope' key =
     (let d = getFieldDefinition p key in
      case (case d of None \<Rightarrow> None | Some d \<Rightarrow> LookupEnv w (EnvVar d)) of
        Some e \<Rightarrow> Return (Inr (GString e)) p w
      | None \<Rightarrow>
          (let key = (case d of None \<Rightarrow> key
                      | Some d \<Rightarrow> if \<not> CaseSensitive d then Key d else key)
           in case getFromConfig w p (resolvePath p scope' key) of
                Deadlock \<Rightarrow> Deadlock
              | Fatal \<Rightarrow> Fatal
              | Return (Inl err) p' w' \<Rightarrow> Return (Inl err) p' w'
              | Return (Inr res) p' w' \<Rightarrow> Return (Inr (Value res)) p' w'))"

definition Get :: "world \<Rightarrow> ConfigProvider \<Rightarrow> string \<Rightarrow> (error + goval) outcome" where
  "Get w p key = GetWithScope w p [] key"

definition GetStringWithScope :: "world \<Rightarrow> ConfigProvider \<Rightarrow> string \<Rightarrow> string \<Rightarrow> (error + string) outcome" where
  "GetStringWithScope w p scope' key =
     (case GetWithScope w p scope' key of
        Deadlock \<Rightarrow> Deadlock
      | Fatal \<Rightarrow> Fatal
      | Return (Inl err) p' w' \<Rightarrow> Return (Inl err) p' w'
      | Return (Inr (GString s)) p' w' \<Rightarrow> Return (Inr s) p' w'
      | Return (Inr v) p' w' \<Rightarrow> Return (Inl (ValueNotAString v key)) p' w')"

definition removePath :: "ConfigProvider \<Rightarrow> string \<Rightarrow> string" where
  "removePath p scope' = (if scope p \<noteq> [] then scope p @ ''.'' @ scope' else scope')"

definition RemoveScope :: "world \<Rightarrow> ConfigProvider \<Rightarrow> string \<Rightarrow> error option outcome" where
  "RemoveScope w p scope' =
     (if mu p then Deadlock
      else
        (case getConfig w (p\<lparr>mu := True\<rparr>) of
           Deadlock \<Rightarrow> Deadlock
         | Fatal \<Rightarrow> Fatal
         | Return js p1 w1 \<Rightarrow>
             (case sjsonDelete js (removePath p scope') of
                Inl err \<Rightarrow> Return (Some err) (p1\<lparr>mu := False\<rparr>) w1
              | Inr js' \<Rightarrow>
                  (case writeConfig w1 p1 js' of
                     (err, p2, w2) \<Rightarrow> Return err (p2\<lparr>mu := False\<rparr>) w2))))"

section \<open>Predicates of the statements\<close>

text \<open>
  The configuration of the provider and the world that no method changes: the field
  definitions, the file name, the fixed scope, the flags, the mutex (free again after a
  return), the environment and the write permissions.
\<close>

definition sameConfig :: "ConfigProvider \<Rightarrow> world \<Rightarrow> ConfigProvider \<Rightarrow> world \<Rightarrow> bool" where
  "sameConfig p w p' w' =
     (fields' p' = fields' p \<and> fileName p' = fileName p \<and> scope p' = scope p
      \<and> mu p' = mu p \<and> explicitValues p' = explicitValues p
      \<and> settingDefaults p' = settingDefaults p
      \<and> env w' = env w \<and> writable w' = writable w)"

text \<open>
  A plain name is a non-empty string of ASCII letters, digits and underscores that does
  not start with a digit. A path built from plain names has no character that the path
  syntax of the JSON library reads specially, and no component that it reads as an array
  index.
\<close>

definition plainChar :: "char \<Rightarrow> bool" where
  "plainChar c = (c \<in> set ''abcdefghijklmnopqrstuvwxyzABCDEFGHIJKLMNOPQRSTUVWXYZ0123456789_'')"

definition plainName :: "string \<Rightarrow> bool" where
  "plainName s =
     (case s of [] \<Rightarrow> False | c # cs \<Rightarrow> c \<notin> set ''0123456789'' \<and> list_all plainChar s)"







section \<open>Example providers\<close>

text \<open>
  The provider of the scenario: a case-insensitive field \<open>region\<close> with default \<open>us\<close>,
  an environment variable and a validator, and a field \<open>apiKey\<close> without default.
\<close>

definition regionField :: FieldDefinition where
  "regionField = \<lparr>EnvVar = ''NEW_RELIC_REGION'', Key = ''region'', Default = GString ''us'',
     CaseSensitive = False, Sensitive = False,
     ValidationFunc = Some (StringInStrings False [''us'', ''eu''])\<rparr>"

definition apiKeyField :: FieldDefinition where
  "apiKeyField = \<lparr>EnvVar = [], Key = ''apiKey'', Default = GNil,
     CaseSensitive = False, Sensitive = True, ValidationFunc = None\<rparr>"

definition exampleProvider :: ConfigProvider where
  "exampleProvider = emptyProvider\<lparr>fields' := [regionField, apiKeyField]\<rparr>"

definition loadedProvider :: ConfigProvider where
  "loadedProvider = exampleProvider\<lparr>cfg := Some (Doc (JObj [(''region'', JStr ''us'')]))\<rparr>"

definition emptyWorld :: world where
  "emptyWorld = \<lparr>env = (\<lambda>n. None), files = (\<lambda>f. None), writable = (\<lambda>f. True)\<rparr>"

definition envWorld :: world where
  "envWorld = emptyWorld\<lparr>env := (\<lambda>n. if n = ''NEW_RELIC_REGION'' then Some ''eu'' else None)\<rparr>"


definition sensitiveA :: FieldDefinition where
  "sensitiveA = \<lparr>EnvVar = [], Key = ''a'', Default = GNil, CaseSensitive = True,
     Sensitive = False, ValidationFunc = None\<rparr>"

definition insensitiveA :: FieldDefinition where
  "insensitiveA = \<lparr>EnvVar = [], Key = ''A'', Default = GNil, CaseSensitive = False,
     Sensitive = False, ValidationFunc = None\<rparr>"

definition insensitivea :: FieldDefinition where
  "insensitivea = \<lparr>EnvVar = [], Key = ''a'', Default = GNil, CaseSensitive = False,
     Sensitive = False, ValidationFunc = None\<rparr>"

definition wildProvider :: ConfigProvider where
  "wildProvider = emptyProvider\<lparr>cfg := Some (Doc (JObj [(''ab'', JStr ''x'')]))\<rparr>"

definition wildDoc :: jsontext where
  "wildDoc = Doc (JObj [(''ab'', JStr ''x''), (''a*'', JStr ''y'')])"

definition fileDoc :: jsontext where
  "fileDoc = Doc (JObj [(''region'', JStr ''us'')])"

definition newDoc :: jsontext where
  "newDoc = Doc (JObj [(''region'', JStr ''us''), (''apiKey'', JStr ''abc123'')])"

definition readOnlyWorld :: world where
  "readOnlyWorld = \<lparr>env = (\<lambda>n. None),
     files = (\<lambda>f. if f = ''config.json'' then Some fileDoc else None),
     writable = (\<lambda>f. False)\<rparr>"

definition fileProvider :: ConfigProvider where
  "fileProvider = exampleProvider\<lparr>fileName := ''config.json''\<rparr>"






section \<open>Evaluation\<close>

lemmas example_defs = exampleProvider_def emptyProvider_def regionField_def apiKeyField_def
  emptyWorld_def envWorld_def loadedProvider_def

lemmas eval_defs = Get_def Set_def GetWithScope_def getFieldDefinition_def EqualFold_def
  toLowerASCII_def LookupEnv_def getFromConfig_def getConfig.simps SetWithScope.simps
  setTarget_def resolvePath_def StringInStrings_def escapeWildcards_def sjsonSet_def
  parsePath_def writeConfig_def text_of_def gjsonGet_def Let_def getConfigValueKeys_def
  NewConfigProvider_def setConfigFromFile_def RemoveScope_def removePath_def sjsonDelete_def

section \<open>Environment override\<close>

text \<open>
  C1. When the field definition that matches the key names an environment variable that is
  set, \<open>GetWithScope\<close> returns the variable's value as a string, for every scope argument,
  every stored document and every default; the provider and the files are left as they
  were.
\<close>

theorem env_override_returned:
  assumes "getFieldDefinition p K = Some d" and "LookupEnv w (EnvVar d) = Some e"
  shows "GetWithScope w p sc K = Return (Inr (GString e)) p w"
  using assms by (simp add: GetWithScope_def)

theorem env_override_returned_witness:
  "getFieldDefinition loadedProvider ''Region'' = Some regionField
   \<and> LookupEnv envWorld (EnvVar regionField) = Some ''eu''
   \<and> GetWithScope envWorld loadedProvider ''prof'' ''Region''
       = Return (Inr (GString ''eu'')) loadedProvider envWorld
   \<and> GetWithScope emptyWorld loadedProvider [] ''Region''
       = Return (Inr (GString ''us'')) loadedProvider emptyWorld"
proof -
  have a: "getFieldDefinition loadedProvider ''Region'' = Some regionField"
    by (simp add: example_defs eval_defs)
  have b: "LookupEnv envWorld (EnvVar regionField) = Some ''eu''"
    by (simp add: example_defs eval_defs)
  have c: "GetWithScope emptyWorld loadedProvider [] ''Region''
      = Return (Inr (GString ''us'')) loadedProvider emptyWorld"
    by (simp add: example_defs eval_defs)
  from a b c env_override_returned[OF a b, of "''prof''"] show ?thesis by simp
qed

section \<open>Validation\<close>

text \<open>
  C7. When the validation function of the key's field definition rejects the value,
  \<open>SetWithScope\<close> returns exactly the validator's error and returns the provider and the
  files unchanged, so every later read sees what it saw before.
\<close>

theorem validation_failure_atomic:
  assumes "getFieldDefinition p K = Some d" and "ValidationFunc d = Some f"
    and "f K V = Some err"
  shows "SetWithScope w p sc K V = Return (Some err) p w"
  using assms by (simp add: SetWithScope.simps setTarget_def)

theorem validation_failure_atomic_witness:
  "getFieldDefinition loadedProvider ''region'' = Some regionField
   \<and> ValidationFunc regionField = Some (StringInStrings False [''us'', ''eu''])
   \<and> StringInStrings False [''us'', ''eu''] ''region'' (GString ''xx'')
       = Some (NotInAllowedValues ''xx'' [''us'', ''eu''])
   \<and> SetWithScope emptyWorld loadedProvider [] ''region'' (GString ''xx'')
       = Return (Some (NotInAllowedValues ''xx'' [''us'', ''eu''])) loadedProvider emptyWorld
   \<and> Get emptyWorld loadedProvider ''region''
       = Return (Inr (GString ''us'')) loadedProvider emptyWorld"
proof -
  have a: "getFieldDefinition loadedProvider ''region'' = Some regionField"
    by (simp add: example_defs eval_defs)
  have b: "ValidationFunc regionField = Some (StringInStrings False [''us'', ''eu''])"
    by (simp add: example_defs)
  have c: "StringInStrings False [''us'', ''eu''] ''region'' (GString ''xx'')
      = Some (NotInAllowedValues ''xx'' [''us'', ''eu''])"
    by (simp add: eval_defs)
  have d: "Get emptyWorld loadedProvider ''region''
      = Return (Inr (GString ''us'')) loadedProvider emptyWorld"
    by (simp add: example_defs eval_defs)
  from a b c d validation_failure_atomic[OF a b c, of emptyWorld "[]"] show ?thesis by simp
qed

section \<open>Scope precedence\<close>



section \<open>Registration\<close>

lemma EqualFold_sym: "EqualFold s t = EqualFold t s"
  by (auto simp: EqualFold_def)

text \<open>
  C5, as the code has it. Two case-insensitive definitions whose keys fold to the same
  string are refused in either order. A case-sensitive definition added after a
  case-insensitive one is accepted, whatever its key. A case-insensitive definition added
  after a case-sensitive one with the same folded key is refused: the check of a new
  case-insensitive definition compares its key with every key registered so far.
\<close>

theorem registration_collisions:
  "(\<not> CaseSensitive d1 \<and> \<not> CaseSensitive d2 \<and> EqualFold (Key d1) (Key d2) \<longrightarrow>
      NewConfigProvider [Some (WithFieldDefinitions [d1, d2])] = Inl (DuplicateKey (Key d2))
      \<and> NewConfigProvider [Some (WithFieldDefinitions [d2, d1])] = Inl (DuplicateKey (Key d1)))
   \<and> (\<not> CaseSensitive d1 \<and> CaseSensitive d2 \<longrightarrow>
      NewConfigProvider [Some (WithFieldDefinitions [d1, d2])]
        = Inr (emptyProvider\<lparr>fields' := [d1, d2]\<rparr>))
   \<and> (\<not> CaseSensitive d1 \<and> CaseSensitive d2 \<and> EqualFold (Key d1) (Key d2) \<longrightarrow>
      NewConfigProvider [Some (WithFieldDefinitions [d2, d1])] = Inl (DuplicateKey (Key d1)))"
  by (auto simp: NewConfigProvider_def getConfigValueKeys_def emptyProvider_def EqualFold_sym)

text \<open>
  C5 as stated fails: a case-sensitive \<open>a\<close> followed by a case-insensitive \<open>A\<close> is refused.
\<close>

theorem sensitive_first_counterexample:
  "CaseSensitive sensitiveA \<and> \<not> CaseSensitive insensitiveA
   \<and> EqualFold (Key sensitiveA) (Key insensitiveA)
   \<and> NewConfigProvider [Some (WithFieldDefinitions [sensitiveA, insensitiveA])]
       = Inl (DuplicateKey ''A'')"
  by (simp add: sensitiveA_def insensitiveA_def NewConfigProvider_def getConfigValueKeys_def
      emptyProvider_def EqualFold_def toLowerASCII_def)

theorem registration_collisions_witness:
  "\<not> CaseSensitive insensitivea \<and> \<not> CaseSensitive insensitiveA \<and> CaseSensitive sensitiveA
   \<and> EqualFold (Key insensitivea) (Key insensitiveA)
   \<and> EqualFold (Key insensitiveA) (Key sensitiveA)
   \<and> NewConfigProvider [Some (WithFieldDefinitions [insensitivea, insensitiveA])]
       = Inl (DuplicateKey ''A'')
   \<and> NewConfigProvider [Some (WithFieldDefinitions [insensitiveA, insensitivea])]
       = Inl (DuplicateKey ''a'')
   \<and> NewConfigProvider [Some (WithFieldDefinitions [insensitiveA, sensitiveA])]
       = Inr (emptyProvider\<lparr>fields' := [insensitiveA, sensitiveA]\<rparr>)
   \<and> NewConfigProvider [Some (WithFieldDefinitions [sensitiveA, insensitiveA])]
       = Inl (DuplicateKey ''A'')"
proof -
  have a: "\<not> CaseSensitive insensitivea \<and> \<not> CaseSensitive insensitiveA \<and> CaseSensitive sensitiveA"
    by (simp add: sensitiveA_def insensitiveA_def insensitivea_def)
  have b: "EqualFold (Key insensitivea) (Key insensitiveA)"
    by (simp add: insensitiveA_def insensitivea_def EqualFold_def toLowerASCII_def)
  have c: "EqualFold (Key insensitiveA) (Key sensitiveA)"
    by (simp add: insensitiveA_def sensitiveA_def EqualFold_def toLowerASCII_def)
  have k: "Key insensitiveA = ''A''" "Key insensitivea = ''a''"
    by (simp_all add: insensitiveA_def insensitivea_def)
  from a b c registration_collisions[of insensitivea insensitiveA]
    registration_collisions[of insensitiveA sensitiveA]
  show ?thesis by (simp add: k)
qed

section \<open>Lazy loading under the mutex\<close>

text \<open>
  C9 at a failing input. On a provider that has not loaded its document and has a field
  with a default, \<open>Set\<close> takes the mutex and then loads the document; the load writes the
  defaults through \<open>Set\<close>, which waits for the mutex its caller holds. The call never
  returns. \<open>RemoveScope\<close> does the same.
\<close>

theorem lazy_load_under_lock_deadlocks:
  "cfg exampleProvider = None \<and> \<not> mu exampleProvider \<and> \<not> settingDefaults exampleProvider
   \<and> Set emptyWorld exampleProvider ''apiKey'' (GString ''abc123'') = Deadlock
   \<and> RemoveScope emptyWorld exampleProvider ''prof'' = Deadlock"
  by (simp add: example_defs eval_defs)

section \<open>Wildcard characters in paths\<close>

text \<open>
  C4 at a failing input. \<open>SetWithScope\<close> escapes \<open>*\<close> and \<open>?\<close> before it writes, so
  \<open>Set\<close> of the key \<open>a*\<close> adds the member \<open>a*\<close>. \<open>GetWithScope\<close> reads with the path as
  it is: \<open>Get\<close> of \<open>a*\<close> returns the value of the member \<open>ab\<close>, the first that the
  pattern matches. \<open>RemoveScope\<close> deletes with the path as it is, and the delete is
  refused.
\<close>

theorem wildcards_escaped_only_by_set:
  "escapeWildcards ''a*'' = [CHR ''a'', CHR 0x5C, CHR ''*'']
   \<and> Set emptyWorld wildProvider ''a*'' (GString ''y'')
       = Return None (wildProvider\<lparr>cfg := Some wildDoc, dirty := True\<rparr>) emptyWorld
   \<and> Get emptyWorld (wildProvider\<lparr>cfg := Some wildDoc, dirty := True\<rparr>) ''a*''
       = Return (Inr (GString ''x'')) (wildProvider\<lparr>cfg := Some wildDoc, dirty := False\<rparr>) emptyWorld
   \<and> RemoveScope emptyWorld (wildProvider\<lparr>cfg := Some wildDoc\<rparr>) ''a*''
       = Return (Some WildcardInPath) (wildProvider\<lparr>cfg := Some wildDoc\<rparr>) emptyWorld"
  by (simp add: wildProvider_def wildDoc_def example_defs eval_defs)

section \<open>What loading and writing leave unchanged\<close>

lemma sameConfig_refl [simp]: "sameConfig p w p w"
  by (simp add: sameConfig_def)

lemma sameConfig_trans: "sameConfig p w p1 w1 \<Longrightarrow> sameConfig p1 w1 p2 w2 \<Longrightarrow> sameConfig p w p2 w2"
  by (simp add: sameConfig_def)

lemma writeConfig_same:
  "writeConfig w p js = (err, p', w') \<Longrightarrow> sameConfig p w p' w'"
  by (auto simp: writeConfig_def sameConfig_def Let_def split: if_splits)

lemma setConfigFromFile_same: "sameConfig p w (setConfigFromFile w p) w"
  by (simp add: setConfigFromFile_def sameConfig_def split: option.splits)

lemma config_kept:
  "(\<forall>js p' w'. getConfig w p = Return js p' w' \<longrightarrow> sameConfig p w p' w')"
  "(\<forall>u p' w'. setDefaultConfig w p fs = Return u p' w' \<longrightarrow> sameConfig p w p' w')"
  "(\<forall>e p' w'. SetWithScope w p sc key val = Return e p' w' \<longrightarrow> sameConfig p w p' w')"
proof (induction w p and w p fs and w p sc key val
    rule: getConfig_setDefaultConfig_SetWithScope.induct)
  case (1 w p)
  show ?case
  proof (intro allI impI)
    fix js p' w'
    assume r: "getConfig w p = Return js p' w'"
    define p1 where "p1 = (if fileName p \<noteq> [] then setConfigFromFile w p else p)"
    have s1: "sameConfig p w p1 w" by (simp add: p1_def setConfigFromFile_same)
    show "sameConfig p w p' w'"
    proof (cases "\<not> settingDefaults p \<and> (cfg p = None \<or> dirty p)")
      case False
      with r show ?thesis by (auto simp: getConfig.simps)
    next
      case True
      show ?thesis
      proof (cases "cfg p1 = None \<or> cfg p1 = Some Blank")
        case False
        with r True have "p' = p1\<lparr>dirty := False\<rparr> \<and> w' = w"
          by (auto simp: getConfig.simps[of w p] p1_def[symmetric] Let_def)
        with s1 show ?thesis by (simp add: sameConfig_def)
      next
        case b: True
        with r True obtain u p2 where
          l: "setDefaultConfig w (p1\<lparr>settingDefaults := True\<rparr>) (fields' p1) = Return u p2 w'"
          and p': "p' = p2\<lparr>settingDefaults := False, dirty := False\<rparr>"
          by (auto simp: getConfig.simps[of w p] p1_def[symmetric] Let_def split: outcome.splits)
        from 1[OF True p1_def b] l have "sameConfig (p1\<lparr>settingDefaults := True\<rparr>) w p2 w'" by blast
        with s1 p' True show ?thesis by (simp add: sameConfig_def)
      qed
    qed
  qed
next
  case (2 w p)
  then show ?case by simp
next
  case (3 w p v vs)
  show ?case
  proof (intro allI impI)
    fix u p' w'
    assume r: "setDefaultConfig w p (v # vs) = Return u p' w'"
    show "sameConfig p w p' w'"
    proof (cases "Default v \<noteq> GNil")
      case True
      with r obtain e p1 w1 where s: "SetWithScope w p [] (Key v) (Default v) = Return e p1 w1"
        and e: "e = None" and l: "setDefaultConfig w1 p1 vs = Return u p' w'"
        by (auto split: outcome.splits if_splits)
      from 3(1)[OF True] s have "sameConfig p w p1 w1" by blast
      moreover from 3(2)[OF True s] e l have "sameConfig p1 w1 p' w'" by blast
      ultimately show ?thesis by (rule sameConfig_trans)
    next
      case False
      with r have "setDefaultConfig w p vs = Return u p' w'" by simp
      with 3(3)[OF False] show ?thesis by blast
    qed
  qed
next
  case (4 w p sc key val)
  show ?case
  proof (intro allI impI)
    fix e p' w'
    assume r: "SetWithScope w p sc key val = Return e p' w'"
    show "sameConfig p w p' w'"
    proof (cases "setTarget p sc key val")
      case (Inl err)
      with r show ?thesis by (simp add: SetWithScope.simps)
    next
      case (Inr path)
      with r have m: "\<not> mu p" by (auto simp: SetWithScope.simps split: if_splits)
      from r Inr m obtain js p1 w1 where g: "getConfig w (p\<lparr>mu := True\<rparr>) = Return js p1 w1"
        by (auto simp: SetWithScope.simps[of w p] split: outcome.splits)
      from 4[OF Inr m] g have f1: "sameConfig (p\<lparr>mu := True\<rparr>) w p1 w1" by auto
      show ?thesis
      proof (cases "sjsonSet js (escapeWildcards path) val")
        case (Inl err)
        with r Inr m g f1 show ?thesis by (auto simp: SetWithScope.simps[of w p] sameConfig_def)
      next
        case sj: (Inr js')
        obtain err p2 w2 where wc: "writeConfig w1 p1 js' = (err, p2, w2)"
          by (cases "writeConfig w1 p1 js'") auto
        with r Inr m g sj
        have "p' = p2\<lparr>mu := False\<rparr> \<and> w' = w2" by (auto simp: SetWithScope.simps[of w p])
        with writeConfig_same[OF wc] f1 m show ?thesis by (simp add: sameConfig_def)
      qed
    qed
  qed
qed

section \<open>Failure to persist\<close>

text \<open>
  C10. With a backing file that cannot be written, a \<open>SetWithScope\<close> that reaches the
  write returns the write error, and leaves the new document in the buffer, marked dirty:
  the state before the call is not restored. The next \<open>getConfig\<close>, in whatever state
  \<open>w2\<close> the files then are, reads the file again: when the file holds a document, that
  document replaces the buffer; when the file cannot be read, the buffer keeps the new
  document.
\<close>

theorem persist_failure_keeps_new_document:
  assumes t: "setTarget p sc K V = Inr path" and m: "\<not> mu p" and sd: "\<not> settingDefaults p"
    and g: "getConfig w (p\<lparr>mu := True\<rparr>) = Return js p1 w1"
    and sj: "sjsonSet js (escapeWildcards path) V = Inr js'"
    and f: "fileName p \<noteq> []" and nw: "\<not> writable w (fileName p)"
  shows "SetWithScope w p sc K V
      = Return (Some (WriteFailed (fileName p))) (p1\<lparr>dirty := True, cfg := Some js', mu := False\<rparr>) w1
    \<and> (\<forall>j. files w2 (fileName p) = Some (Doc j) \<longrightarrow>
         getConfig w2 (p1\<lparr>dirty := True, cfg := Some js', mu := False\<rparr>)
           = Return (Doc j) (p1\<lparr>dirty := False, cfg := Some (Doc j), mu := False\<rparr>) w2)
    \<and> (files w2 (fileName p) = None \<longrightarrow>
         getConfig w2 (p1\<lparr>dirty := True, cfg := Some js', mu := False\<rparr>)
           = Return js' (p1\<lparr>dirty := False, cfg := Some js', mu := False\<rparr>) w2)"
proof -
  from config_kept(1)[of w "p\<lparr>mu := True\<rparr>"] g
  have k: "sameConfig (p\<lparr>mu := True\<rparr>) w p1 w1" by blast
  then have fn: "fileName p1 = fileName p" and wr: "writable w1 = writable w"
    and sd1: "\<not> settingDefaults p1"
    using sd by (simp_all add: sameConfig_def)
  from sj obtain j' where js': "js' = Doc j'"
    by (auto simp: sjsonSet_def split: sum.splits)
  have 1: "SetWithScope w p sc K V
      = Return (Some (WriteFailed (fileName p))) (p1\<lparr>dirty := True, cfg := Some js', mu := False\<rparr>) w1"
    using t m g sj f nw fn wr by (simp add: SetWithScope.simps[of w p] writeConfig_def Let_def)
  have 2: "getConfig w2 (p1\<lparr>dirty := True, cfg := Some js', mu := False\<rparr>)
           = Return (Doc j) (p1\<lparr>dirty := False, cfg := Some (Doc j), mu := False\<rparr>) w2"
    if "files w2 (fileName p) = Some (Doc j)" for j
    using that f fn sd1 by (simp add: getConfig.simps setConfigFromFile_def text_of_def Let_def)
  have 3: "getConfig w2 (p1\<lparr>dirty := True, cfg := Some js', mu := False\<rparr>)
           = Return js' (p1\<lparr>dirty := False, cfg := Some js', mu := False\<rparr>) w2"
    if "files w2 (fileName p) = None"
    using that f fn sd1 js' by (simp add: getConfig.simps setConfigFromFile_def text_of_def Let_def)
  from 1 2 3 show ?thesis by blast
qed

theorem persist_failure_keeps_new_document_witness:
  "setTarget fileProvider [] ''apiKey'' (GString ''abc123'') = Inr ''apiKey''
   \<and> \<not> mu fileProvider \<and> \<not> settingDefaults fileProvider
   \<and> getConfig readOnlyWorld (fileProvider\<lparr>mu := True\<rparr>)
       = Return fileDoc (fileProvider\<lparr>mu := True, cfg := Some fileDoc\<rparr>) readOnlyWorld
   \<and> sjsonSet fileDoc (escapeWildcards ''apiKey'') (GString ''abc123'') = Inr newDoc
   \<and> fileName fileProvider \<noteq> [] \<and> \<not> writable readOnlyWorld (fileName fileProvider)
   \<and> Set readOnlyWorld fileProvider ''apiKey'' (GString ''abc123'')
       = Return (Some (WriteFailed ''config.json''))
           (fileProvider\<lparr>dirty := True, cfg := Some newDoc\<rparr>) readOnlyWorld
   \<and> files readOnlyWorld (fileName fileProvider) = Some fileDoc
   \<and> getConfig readOnlyWorld (fileProvider\<lparr>dirty := True, cfg := Some newDoc\<rparr>)
       = Return fileDoc (fileProvider\<lparr>cfg := Some fileDoc\<rparr>) readOnlyWorld"
proof -
  have t: "setTarget fileProvider [] ''apiKey'' (GString ''abc123'') = Inr ''apiKey''"
    by (simp add: fileProvider_def example_defs eval_defs)
  have m: "\<not> mu fileProvider" and sd: "\<not> settingDefaults fileProvider"
    by (simp_all add: fileProvider_def example_defs)
  have g: "getConfig readOnlyWorld (fileProvider\<lparr>mu := True\<rparr>)
       = Return fileDoc (fileProvider\<lparr>mu := True, cfg := Some fileDoc\<rparr>) readOnlyWorld"
    by (simp add: fileProvider_def fileDoc_def readOnlyWorld_def example_defs eval_defs)
  have sj: "sjsonSet fileDoc (escapeWildcards ''apiKey'') (GString ''abc123'') = Inr newDoc"
    by (simp add: fileDoc_def newDoc_def eval_defs)
  have f: "fileName fileProvider \<noteq> []" and nw: "\<not> writable readOnlyWorld (fileName fileProvider)"
    by (simp_all add: fileProvider_def readOnlyWorld_def)
  have fl: "files readOnlyWorld (fileName fileProvider) = Some fileDoc"
    by (simp add: fileProvider_def readOnlyWorld_def)
  have fn: "fileName fileProvider = ''config.json''" by (simp add: fileProvider_def)
  from persist_failure_keeps_new_document[OF t m sd g sj f nw, where ?w2.0 = readOnlyWorld]
    t m sd g sj f nw fl
  show ?thesis by (simp add: Set_def fn fileDoc_def fileProvider_def example_defs)
qed

section \<open>Paths of plain names\<close>



lemma plainName_nonempty: "plainName s \<Longrightarrow> s \<noteq> []"
  by (auto simp: plainName_def)

lemma wmatch_Lit [simp]: "wmatch (map Lit k) k' = (k = k')"
  by (induction k arbitrary: k') (auto split: list.splits)

lemma literal_Lit [simp]: "literal (map Lit s) = Some s"
  by (induction s) auto

lemma literals_Lit [simp]: "literals (map (map Lit) ks) = Some ks"
  by (induction ks) auto






section \<open>Reading back what was written\<close>


















section \<open>Keys without a field definition\<close>




section \<open>Reading beside what was written\<close>




section \<open>Materializing the defaults\<close>







end
